theory Spec2Isabelle
  imports Complex_Main
begin

section \<open>Numbers and vectors\<close>

text \<open>
  The simulator \<^verbatim>\<open>src/rktl_sim/simulator.py\<close> computes with Python floats and with
  \<^verbatim>\<open>pymunk.Vec2d\<close>. Floats are idealised as the real numbers: every statement below is
  about exact arithmetic, with \<open>sqrt\<close>, \<open>cos\<close> and \<open>sin\<close> the real functions.

  \<^verbatim>\<open>Vec2d\<close> belongs to the pymunk library, not to the repository. It is modelled as a pair of
  reals with the operations the simulator calls, following the library's documented
  behaviour: \<^verbatim>\<open>length\<close> is the Euclidean norm, \<^verbatim>\<open>*\<close> with a number scales both components
  (on either side), and \<^verbatim>\<open>normalized()\<close> divides by the length, returning \<^verbatim>\<open>Vec2d(0, 0)\<close>
  for a vector of length 0.
\<close>

type_synonym Vec2d = "real \<times> real"

definition vlength :: "Vec2d \<Rightarrow> real" where
  "vlength v = sqrt ((fst v)\<^sup>2 + (snd v)\<^sup>2)"

definition vscale :: "real \<Rightarrow> Vec2d \<Rightarrow> Vec2d" where
  "vscale k v = (k * fst v, k * snd v)"

definition vadd :: "Vec2d \<Rightarrow> Vec2d \<Rightarrow> Vec2d" where
  "vadd u v = (fst u + fst v, snd u + snd v)"

definition vneg :: "Vec2d \<Rightarrow> Vec2d" where
  "vneg v = (- fst v, - snd v)"

definition normalized :: "Vec2d \<Rightarrow> Vec2d" where
  "normalized v =
     (let l = vlength v in if l \<noteq> 0 then (fst v / l, snd v / l) else (0, 0))"

definition rotated :: "Vec2d \<Rightarrow> real \<Rightarrow> Vec2d" where
  "rotated v a = (fst v * cos a - snd v * sin a, fst v * sin a + snd v * cos a)"

definition cross :: "Vec2d \<Rightarrow> Vec2d \<Rightarrow> real" where
  "cross u v = fst u * snd v - snd u * fst v"

definition radians :: "real \<Rightarrow> real" where
  "radians d = d * pi / 180"

section \<open>Constants\<close>

definition CAR_SIZE :: "real \<times> real" where "CAR_SIZE = (16.5, 8.5)"
definition CAR_MASS :: real where "CAR_MASS = 5"
definition CAR_SPEED :: real where "CAR_SPEED = 5"
definition CAR_TURN :: real where "CAR_TURN = 30"
definition BRAKE_SPEED :: real where "BRAKE_SPEED = 5"
definition FREE_DECELERATION :: real where "FREE_DECELERATION = 0.5"

definition FIELD_WIDTH :: real where "FIELD_WIDTH = 426.72"
definition FIELD_HEIGHT :: real where "FIELD_HEIGHT = 304.8"
definition GOAL_HEIGHT :: real where "GOAL_HEIGHT = 81.28"
definition GOAL_DEPTH :: real where "GOAL_DEPTH = 25.4"
definition SIDE_WALL :: real where "SIDE_WALL = (FIELD_HEIGHT - GOAL_HEIGHT) / 2"

definition BALL_MASS :: real where "BALL_MASS = 0.1"
definition BALL_POS :: "real \<times> real" where
  "BALL_POS = ((FIELD_WIDTH + GOAL_DEPTH) / 2, FIELD_HEIGHT / 2)"
definition BALL_DECELERATION :: real where "BALL_DECELERATION = 0.1"

definition MAX_SPEED :: real where "MAX_SPEED = 200"

section \<open>Rigid bodies\<close>

text \<open>
  A \<^verbatim>\<open>pymunk.Body\<close> as far as the simulator reads and writes it. \<open>ident\<close> is the identity of
  the Python object (a body created later has a later identity); the shape attached to a
  body is created, added and removed together with it and carries only rendering and
  collision parameters, so it is not modelled apart.

  \<^verbatim>\<open>apply_impulse_at_local_point(impulse)\<close> with the default point \<^verbatim>\<open>(0, 0)\<close> rotates the
  impulse from body coordinates to world coordinates and adds \<open>impulse / mass\<close> to the
  velocity at once; applied at the centre of gravity it leaves the angular velocity alone.
\<close>

record body =
  ident :: nat
  mass :: real
  position :: Vec2d
  angle :: real
  velocity :: Vec2d
  angular_velocity :: real

definition Body :: "nat \<Rightarrow> real \<Rightarrow> body" where
  "Body i m = \<lparr>ident = i, mass = m, position = (0, 0), angle = 0,
               velocity = (0, 0), angular_velocity = 0\<rparr>"

definition apply_impulse_at_local_point :: "body \<Rightarrow> Vec2d \<Rightarrow> body" where
  "apply_impulse_at_local_point b impulse =
     b\<lparr>velocity := vadd (velocity b) (vscale (1 / mass b) (rotated impulse (angle b)))\<rparr>"

text \<open>
  The \<^verbatim>\<open>pymunk.Space\<close> registers bodies for the external physics step. It is modelled as
  the list of the identities of the bodies it holds, \<^verbatim>\<open>add\<close> and \<^verbatim>\<open>remove\<close> as total
  operations on that list (see \<open>registered\<close> below for the calls the library refuses).
\<close>

type_synonym space = "nat list"

definition space_add :: "space \<Rightarrow> body \<Rightarrow> space" where
  "space_add sp b = sp @ [ident b]"

definition space_remove :: "space \<Rightarrow> body \<Rightarrow> space" where
  "space_remove sp b = removeAll (ident b) sp"

section \<open>Ball\<close>

record ball =
  ball_body :: body

definition Ball :: "real \<Rightarrow> real \<Rightarrow> space \<Rightarrow> Vec2d \<Rightarrow> nat \<Rightarrow> ball \<times> space" where
  "Ball x y sp impulse i =
     (let b0 = (Body i BALL_MASS)\<lparr>position := (x, y)\<rparr>;
          sp' = space_add sp b0;
          b1 = apply_impulse_at_local_point b0 impulse
      in (\<lparr>ball_body = b1\<rparr>, sp'))"

text \<open>
  \<^verbatim>\<open>self.body.velocity = (self.body.velocity.length - BALL_DECELERATION)
       * self.body.velocity.normalized()\<close>
\<close>

definition decelerate :: "ball \<Rightarrow> ball" where
  "decelerate bl =
     (let v = velocity (ball_body bl)
      in bl\<lparr>ball_body := (ball_body bl)
            \<lparr>velocity := vscale (vlength v - BALL_DECELERATION) (normalized v)\<rparr>\<rparr>)"

definition getPos :: "ball \<Rightarrow> Vec2d" where
  "getPos bl = position (ball_body bl)"

section \<open>Car\<close>

text \<open>
  The snapshot \<^verbatim>\<open>pygame.key.get_pressed()\<close>, read at five keys.
\<close>

record keys =
  K_UP :: bool
  K_DOWN :: bool
  K_SPACE :: bool
  K_LEFT :: bool
  K_RIGHT :: bool

record car =
  body :: body
  steering :: real
  reverse :: int

definition Car :: "real \<Rightarrow> real \<Rightarrow> space \<Rightarrow> real \<Rightarrow> nat \<Rightarrow> car \<times> space" where
  "Car x y sp ang i =
     (let b = (Body i CAR_MASS)\<lparr>position := (x, y), angle := radians ang\<rparr>
      in (\<lparr>body = b, steering = 0, reverse = 1\<rparr>, space_add sp b))"

definition forward_direction :: "car \<Rightarrow> Vec2d" where
  "forward_direction c = (cos (angle (body c)), sin (angle (body c)))"

definition impulse :: Vec2d where
  "impulse = vscale CAR_SPEED (1, 0)"

definition push :: "car \<Rightarrow> Vec2d \<Rightarrow> car" where
  "push c j = c\<lparr>body := apply_impulse_at_local_point (body c) j\<rparr>"

text \<open>
  \<^verbatim>\<open>Car.update\<close> in its three stages. It stores \<^verbatim>\<open>forward_direction\<close>, \<^verbatim>\<open>impulse\<close> and
  \<^verbatim>\<open>turning_radius\<close> on the car, each computed anew before it is read: here they are
  values, and the forward direction of line 70 is handed to the stages that use it.
  Lines 73 to 97, the throttle keys:
\<close>

definition throttle :: "Vec2d \<Rightarrow> car \<Rightarrow> keys \<Rightarrow> car" where
  "throttle fd c ks =
     (if K_UP ks then
        (let c1 = (if reverse c = 1 then push c impulse
                   else push c (vscale BRAKE_SPEED impulse))
         in if vlength (velocity (body c1)) < 5 then c1\<lparr>reverse := 1\<rparr> else c1)
      else if K_DOWN ks then
        (let c1 = (if reverse c = - 1 then push c (vneg impulse)
                   else push c (vscale BRAKE_SPEED (vneg impulse)))
         in if vlength (velocity (body c1)) < 5 then c1\<lparr>reverse := - 1\<rparr> else c1)
      else if K_SPACE ks then
        (if reverse c = - 1 then push c (vscale BRAKE_SPEED impulse)
         else if reverse c = 1 then push c (vscale BRAKE_SPEED (vneg impulse))
         else c)
      else
        c\<lparr>body := (body c)\<lparr>velocity :=
           vscale (of_int (reverse c))
             (vscale (vlength (velocity (body c)) - FREE_DECELERATION) fd)\<rparr>\<rparr>)"

text \<open>Lines 100 to 106, the turn keys:\<close>

definition turning_radius :: real where
  "turning_radius = fst CAR_SIZE / sin (radians CAR_TURN)"

definition turn :: "car \<Rightarrow> keys \<Rightarrow> car" where
  "turn c ks =
     (if K_LEFT ks then
        c\<lparr>body := (body c)\<lparr>angular_velocity :=
          vlength (velocity (body c)) / (- turning_radius) * of_int (reverse c)\<rparr>\<rparr>
      else if K_RIGHT ks then
        c\<lparr>body := (body c)\<lparr>angular_velocity :=
          vlength (velocity (body c)) / turning_radius * of_int (reverse c)\<rparr>\<rparr>
      else
        c\<lparr>body := (body c)\<lparr>angular_velocity := 0\<rparr>\<rparr>)"

text \<open>Line 109, the drift reset:\<close>

definition reset_drift :: "Vec2d \<Rightarrow> car \<Rightarrow> car" where
  "reset_drift fd c =
     c\<lparr>body := (body c)\<lparr>velocity :=
       vscale (min (vlength (velocity (body c))) MAX_SPEED)
         (vscale (of_int (reverse c)) fd)\<rparr>\<rparr>"

definition update :: "car \<Rightarrow> keys \<Rightarrow> car" where
  "update c ks =
     (let fd = forward_direction c
      in reset_drift fd (turn (throttle fd c ks) ks))"

section \<open>Game\<close>

text \<open>
  The state of a \<^verbatim>\<open>Game\<close> inside \<^verbatim>\<open>run()\<close>, once \<^verbatim>\<open>addObjects()\<close> has created the
  ball and the cars. \<open>created\<close> counts the bodies constructed so far; the next body takes
  it as its identity. Screen, clock and draw options belong to the display and are left
  out, and so are the twelve static wall segments \<^verbatim>\<open>run()\<close> adds to the space when
  \<open>walls\<close> is set: the logic of the loop never reads or removes them.
\<close>

record game =
  leftscore :: int
  rightscore :: int
  ticks :: nat
  walls :: bool
  exit :: bool
  gameSpace :: space
  created :: nat
  ball :: ball
  cars :: "car list"

definition addObjects :: "game \<Rightarrow> game" where
  "addObjects g =
     (let n = created g;
          (b, sp1) = Ball (fst BALL_POS) (snd BALL_POS) (gameSpace g) (0, 0) n;
          (c1, sp2) = Car ((FIELD_WIDTH + GOAL_DEPTH) / 3) (FIELD_HEIGHT / 2) sp1 0 (n + 1);
          (c2, sp3) = Car (2 * (FIELD_WIDTH + GOAL_DEPTH) / 3) (FIELD_HEIGHT / 2 + 50) sp2
                        180 (n + 2)
      in g\<lparr>gameSpace := sp3, created := n + 3, ball := b, cars := [c1, c2]\<rparr>)"

definition reset :: "game \<Rightarrow> game" where
  "reset g =
     (let sp1 = fold (\<lambda>c sp. space_remove sp (body c)) (cars g) (gameSpace g);
          sp2 = space_remove sp1 (ball_body (ball g))
      in addObjects (g\<lparr>gameSpace := sp2\<rparr>))"

definition checkGoal :: "game \<Rightarrow> ball \<Rightarrow> real \<Rightarrow> real \<Rightarrow> real \<Rightarrow> real \<Rightarrow> game" where
  "checkGoal g bl leftgoal rightgoal topgoal botgoal =
     (if fst (getPos bl) < leftgoal then
        reset (if snd (getPos bl) > topgoal \<and> snd (getPos bl) < botgoal
               then g\<lparr>rightscore := rightscore g + 1\<rparr> else g)
      else if fst (getPos bl) > rightgoal then
        reset (if snd (getPos bl) > topgoal \<and> snd (getPos bl) < botgoal
               then g\<lparr>leftscore := leftscore g + 1\<rparr> else g)
      else g)"

text \<open>
  One pass of the \<^verbatim>\<open>while not self.exit\<close> loop of \<^verbatim>\<open>run()\<close>. What the outside supplies in
  a pass is its input: the pygame events, the pressed keys, and what
  \<^verbatim>\<open>gameSpace.step(dt)\<close> does to a body (the physics engine moves bodies: it writes
  position, angle, velocity and angular velocity, nothing else).
\<close>

datatype event = QUIT | OTHER

record tick_input =
  events :: "event list"
  pressed :: keys
  physics :: "body \<Rightarrow> body"

definition moved :: "(body \<Rightarrow> body) \<Rightarrow> body \<Rightarrow> body" where
  "moved f b =
     b\<lparr>position := position (f b), angle := angle (f b),
       velocity := velocity (f b), angular_velocity := angular_velocity (f b)\<rparr>"

definition space_step :: "(body \<Rightarrow> body) \<Rightarrow> game \<Rightarrow> game" where
  "space_step f g =
     g\<lparr>ball := (ball g)\<lparr>ball_body := moved f (ball_body (ball g))\<rparr>,
       cars := map (\<lambda>c. c\<lparr>body := moved f (body c)\<rparr>) (cars g)\<rparr>"

definition logic :: "game \<Rightarrow> keys \<Rightarrow> game" where
  "logic g ks =
     (let g1 = g\<lparr>cars := map (\<lambda>c. update c ks) (cars g)\<rparr>;
          g2 = g1\<lparr>ball := decelerate (ball g1)\<rparr>
      in if walls g2
         then checkGoal g2 (ball g2) GOAL_DEPTH FIELD_WIDTH SIDE_WALL (SIDE_WALL + GOAL_HEIGHT)
         else g2)"

definition tick :: "game \<Rightarrow> tick_input \<Rightarrow> game" where
  "tick g inp =
     (let g1 = (if QUIT \<in> set (events inp) then g\<lparr>exit := True\<rparr> else g)
      in space_step (physics inp) (logic g1 (pressed inp)))"

text \<open>
  The loop, run on the inputs of its first passes: it stops when \<open>exit\<close> is set, and the
  list of inputs bounds the number of passes looked at.
\<close>

fun run_loop :: "game \<Rightarrow> tick_input list \<Rightarrow> game" where
  "run_loop g [] = g"
| "run_loop g (inp # inps) = (if exit g then g else run_loop (tick g inp) inps)"

text \<open>
  One car over several passes: \<^verbatim>\<open>update\<close> with the keys of the pass, then the physics
  step on its body.
\<close>

fun drive :: "car \<Rightarrow> (keys \<times> (body \<Rightarrow> body)) list \<Rightarrow> car" where
  "drive c [] = c"
| "drive c ((ks, f) # rest) = drive ((update c ks)\<lparr>body := moved f (body (update c ks))\<rparr>) rest"

text \<open>The poses of the objects: the ball's position, and each car's position and angle.\<close>

definition poses :: "game \<Rightarrow> Vec2d \<times> (Vec2d \<times> real) list" where
  "poses g =
     (position (ball_body (ball g)),
      map (\<lambda>c. (position (body c), angle (body c))) (cars g))"

text \<open>Key snapshots and cars used as concrete inputs below.\<close>

definition no_keys :: keys where
  "no_keys = \<lparr>K_UP = False, K_DOWN = False, K_SPACE = False, K_LEFT = False, K_RIGHT = False\<rparr>"

definition up_key :: keys where
  "up_key = no_keys\<lparr>K_UP := True\<rparr>"

definition car_at :: "Vec2d \<Rightarrow> int \<Rightarrow> car" where
  "car_at v r = \<lparr>body = (Body 0 CAR_MASS)\<lparr>velocity := v\<rparr>, steering = 0, reverse = r\<rparr>"

definition ball_at :: "Vec2d \<Rightarrow> Vec2d \<Rightarrow> ball" where
  "ball_at p v = \<lparr>ball_body = (Body 0 BALL_MASS)\<lparr>position := p, velocity := v\<rparr>\<rparr>"

definition game_at :: "bool \<Rightarrow> Vec2d \<Rightarrow> game" where
  "game_at w p =
     \<lparr>leftscore = 0, rightscore = 0, ticks = 60, walls = w, exit = False,
      gameSpace = [0, 1, 2], created = 3,
      ball = \<lparr>ball_body = (Body 0 BALL_MASS)\<lparr>position := p\<rparr>\<rparr>,
      cars = [fst (Car 100 100 [] 0 1), fst (Car 300 100 [] 180 2)]\<rparr>"

definition still :: tick_input where
  "still = \<lparr>events = [], pressed = no_keys, physics = (\<lambda>b. b)\<rparr>"

text \<open>
  The library refuses to add a body a space already holds and to remove one it does not
  hold. \<open>registered\<close> says that neither can happen at the next \<^verbatim>\<open>reset()\<close>: the space
  holds the bodies of the ball and of the cars, and only bodies created so far.
\<close>

definition registered :: "game \<Rightarrow> bool" where
  "registered g \<longleftrightarrow>
     ident (ball_body (ball g)) \<in> set (gameSpace g) \<and>
     list_all (\<lambda>c. ident (body c) \<in> set (gameSpace g)) (cars g) \<and>
     list_all (\<lambda>i. i < created g) (gameSpace g)"

text \<open>Every car of the game has its reverse flag at \<open>1\<close> or \<open>- 1\<close>.\<close>

definition flags_ok :: "game \<Rightarrow> bool" where
  "flags_ok g \<longleftrightarrow> list_all (\<lambda>c. reverse c = 1 \<or> reverse c = - 1) (cars g)"

section \<open>Vectors\<close>

lemma vlength_nonneg: "0 \<le> vlength v"
  by (simp add: vlength_def)

lemma vlength_zero_iff: "vlength v = 0 \<longleftrightarrow> v = (0, 0)"
  by (cases v) (simp add: vlength_def sum_power2_eq_zero_iff)

lemma vlength_axis: "vlength (a, 0) = \<bar>a\<bar>"
  by (simp add: vlength_def)

lemma vlength_vscale: "vlength (vscale k v) = \<bar>k\<bar> * vlength v"
proof -
  have "(k * fst v)\<^sup>2 + (k * snd v)\<^sup>2 = k\<^sup>2 * ((fst v)\<^sup>2 + (snd v)\<^sup>2)"
    by (simp add: power_mult_distrib distrib_left)
  then show ?thesis
    by (simp add: vlength_def vscale_def real_sqrt_mult)
qed

lemma vlength_normalized: "v \<noteq> (0, 0) \<Longrightarrow> vlength (normalized v) = 1"
proof -
  assume nz: "v \<noteq> (0, 0)"
  then have pos: "0 < vlength v"
    using vlength_nonneg [of v] vlength_zero_iff [of v] by linarith
  have "normalized v = vscale (1 / vlength v) v"
    using pos by (simp add: normalized_def vscale_def Let_def)
  then show ?thesis
    using pos by (simp add: vlength_vscale)
qed

lemma cross_vscale_self: "cross (vscale a (vscale b v)) v = 0"
  by (simp add: cross_def vscale_def)

lemma turning_radius_value: "turning_radius = 33"
  by (simp add: turning_radius_def CAR_SIZE_def radians_def CAR_TURN_def sin_30)

section \<open>Ball deceleration\<close>

lemma decelerate_velocity:
  "velocity (ball_body (decelerate bl)) =
     vscale (vlength (velocity (ball_body bl)) - BALL_DECELERATION)
       (normalized (velocity (ball_body bl)))"
  by (simp add: decelerate_def Let_def)

lemma ident_decelerate: "ident (ball_body (decelerate bl)) = ident (ball_body bl)"
  by (simp add: decelerate_def Let_def)

text \<open>
  For a moving ball the new speed is the distance between the old speed and
  \<open>BALL_DECELERATION\<close>, in absolute value: nothing clamps the difference at 0.
\<close>

lemma decelerate_speed:
  assumes "velocity (ball_body bl) \<noteq> (0, 0)"
  shows "vlength (velocity (ball_body (decelerate bl))) =
           \<bar>vlength (velocity (ball_body bl)) - BALL_DECELERATION\<bar>"
  by (simp add: decelerate_velocity vlength_vscale vlength_normalized [OF assms])

text \<open>
  From a speed of at least \<open>BALL_DECELERATION\<close> the ball slows down by
  \<open>BALL_DECELERATION\<close> and keeps its direction.
\<close>

lemma decelerate_above_threshold:
  assumes "BALL_DECELERATION \<le> vlength (velocity (ball_body bl))"
  shows "vlength (velocity (ball_body (decelerate bl))) =
           vlength (velocity (ball_body bl)) - BALL_DECELERATION"
    and "velocity (ball_body (decelerate bl)) =
           vscale ((vlength (velocity (ball_body bl)) - BALL_DECELERATION)
                     / vlength (velocity (ball_body bl))) (velocity (ball_body bl))"
    and "0 \<le> (vlength (velocity (ball_body bl)) - BALL_DECELERATION)
                     / vlength (velocity (ball_body bl))"
proof -
  let ?v = "velocity (ball_body bl)"
  have pos: "0 < vlength ?v"
    using assms by (simp add: BALL_DECELERATION_def)
  then have nz: "?v \<noteq> (0, 0)"
    using vlength_zero_iff [of ?v] by auto
  show "vlength (velocity (ball_body (decelerate bl))) = vlength ?v - BALL_DECELERATION"
    using assms by (simp add: decelerate_speed [OF nz])
  show "velocity (ball_body (decelerate bl)) =
          vscale ((vlength ?v - BALL_DECELERATION) / vlength ?v) ?v"
    using pos by (simp add: decelerate_velocity normalized_def Let_def vscale_def)
  show "0 \<le> (vlength ?v - BALL_DECELERATION) / vlength ?v"
    using assms pos by simp
qed

text \<open>
  Claim C1: after \<^verbatim>\<open>Ball.decelerate()\<close> on a moving ball the speed is
  \<open>max 0 (priorSpeed - BALL_DECELERATION)\<close> and the velocity is a non-negative multiple of
  the prior velocity. The code does not do this below the threshold: a ball moving at
  0.02 along the x axis leaves \<^verbatim>\<open>decelerate()\<close> with velocity \<open>(- 0.08, 0)\<close>, so it moves
  the other way, at speed 0.08 instead of \<open>max 0 (0.02 - 0.1) = 0\<close>, faster than before.
\<close>

theorem decelerate_slow_ball_reverses:
  "vlength (velocity (ball_body (ball_at (0, 0) (0.02, 0)))) = 0.02
   \<and> velocity (ball_body (decelerate (ball_at (0, 0) (0.02, 0)))) = (- 0.08, 0)
   \<and> vlength (velocity (ball_body (decelerate (ball_at (0, 0) (0.02, 0))))) = 0.08
   \<and> max 0 (vlength (velocity (ball_body (ball_at (0, 0) (0.02, 0)))) - BALL_DECELERATION) = 0"
  by (simp add: decelerate_def ball_at_def Body_def Let_def normalized_def vlength_axis
      vscale_def BALL_DECELERATION_def)

text \<open>
  Claim C8: \<^verbatim>\<open>Ball.decelerate()\<close> on a ball whose velocity is the zero vector is a no-op:
  the ball is left as it was, its velocity the zero vector. (The zero check is the
  library's: \<^verbatim>\<open>normalized()\<close> of the zero vector is the zero vector.)
\<close>

theorem decelerate_zero_velocity:
  assumes "velocity (ball_body bl) = (0, 0)"
  shows "decelerate bl = bl \<and> velocity (ball_body (decelerate bl)) = (0, 0)"
  using assms by (simp add: decelerate_def Let_def normalized_def vlength_def vscale_def)

theorem decelerate_zero_velocity_witness:
  "velocity (ball_body (ball_at (3, 4) (0, 0))) = (0, 0) \<and>
   decelerate (ball_at (3, 4) (0, 0)) = ball_at (3, 4) (0, 0) \<and>
   velocity (ball_body (decelerate (ball_at (3, 4) (0, 0)))) = (0, 0)"
  using decelerate_zero_velocity [of "ball_at (3, 4) (0, 0)"]
  by (simp add: ball_at_def Body_def)

section \<open>Car update\<close>

lemma vlength_forward_direction: "vlength (forward_direction c) = 1"
  by (simp add: vlength_def forward_direction_def)

lemma angle_apply_impulse: "angle (apply_impulse_at_local_point b j) = angle b"
  by (simp add: apply_impulse_at_local_point_def)

text \<open>
  The throttle stage writes \<open>reverse\<close> in two places only, each behind the test that the
  speed it has just produced is below 5.
\<close>

lemma reverse_throttle_cases:
  "reverse (throttle fd c ks) = reverse c \<or>
   (vlength (velocity (body (throttle fd c ks))) < 5 \<and>
    (K_UP ks \<and> reverse (throttle fd c ks) = 1 \<or>
     \<not> K_UP ks \<and> K_DOWN ks \<and> reverse (throttle fd c ks) = - 1))"
  by (simp add: throttle_def Let_def push_def)

lemma reverse_throttle_pm:
  "reverse c = 1 \<or> reverse c = - 1 \<Longrightarrow>
   reverse (throttle fd c ks) = 1 \<or> reverse (throttle fd c ks) = - 1"
  using reverse_throttle_cases [of fd c ks] by auto

lemma angle_throttle: "angle (body (throttle fd c ks)) = angle (body c)"
  by (simp add: throttle_def Let_def push_def angle_apply_impulse)

lemma velocity_throttle_idle:
  "\<not> K_UP ks \<Longrightarrow> \<not> K_DOWN ks \<Longrightarrow> \<not> K_SPACE ks \<Longrightarrow>
   velocity (body (throttle fd c ks)) =
     vscale (of_int (reverse c)) (vscale (vlength (velocity (body c)) - FREE_DECELERATION) fd)"
  and reverse_throttle_idle:
  "\<not> K_UP ks \<Longrightarrow> \<not> K_DOWN ks \<Longrightarrow> \<not> K_SPACE ks \<Longrightarrow>
   reverse (throttle fd c ks) = reverse c"
  by (simp_all add: throttle_def)

lemma reverse_turn: "reverse (turn c ks) = reverse c"
  and velocity_turn: "velocity (body (turn c ks)) = velocity (body c)"
  and angle_turn: "angle (body (turn c ks)) = angle (body c)"
  by (simp_all add: turn_def)

lemma reverse_reset_drift: "reverse (reset_drift fd c) = reverse c"
  and angle_reset_drift: "angle (body (reset_drift fd c)) = angle (body c)"
  and velocity_reset_drift: "velocity (body (reset_drift fd c)) =
     vscale (min (vlength (velocity (body c))) MAX_SPEED) (vscale (of_int (reverse c)) fd)"
  by (simp_all add: reset_drift_def)

lemma reverse_update: "reverse (update c ks) = reverse (throttle (forward_direction c) c ks)"
  by (simp add: update_def Let_def reverse_reset_drift reverse_turn)

lemma reverse_update_pm:
  "reverse c = 1 \<or> reverse c = - 1 \<Longrightarrow>
   reverse (update c ks) = 1 \<or> reverse (update c ks) = - 1"
  using reverse_throttle_pm [of c "forward_direction c" ks] by (simp add: reverse_update)

lemma angle_update: "angle (body (update c ks)) = angle (body c)"
  by (simp add: update_def Let_def angle_reset_drift angle_turn angle_throttle)

lemma forward_direction_update: "forward_direction (update c ks) = forward_direction c"
  by (simp add: forward_direction_def angle_update)

lemma ident_update: "ident (body (update c ks)) = ident (body c)"
  by (simp add: update_def Let_def reset_drift_def turn_def throttle_def push_def
      apply_impulse_at_local_point_def)

lemma velocity_update:
  "velocity (body (update c ks)) =
     vscale (min (vlength (velocity (body (throttle (forward_direction c) c ks)))) MAX_SPEED)
       (vscale (of_int (reverse (update c ks))) (forward_direction c))"
  by (simp add: update_def Let_def velocity_reset_drift reverse_reset_drift reverse_turn
      velocity_turn)

lemmas eval_car = car_at_def Body_def up_key_def no_keys_def update_def Let_def
  forward_direction_def throttle_def push_def apply_impulse_at_local_point_def
  impulse_def vscale_def vadd_def rotated_def CAR_MASS_def CAR_SPEED_def BRAKE_SPEED_def
  vlength_axis reset_drift_def turn_def MAX_SPEED_def FREE_DECELERATION_def

text \<open>
  Claim C2, as amended: \<^verbatim>\<open>Car.update\<close> changes the reverse flag only if the up or the
  down key is pressed and the speed right after the throttle impulse of this update (the
  speed lines 78 and 87 read) is below 5; otherwise the flag is after the update what it
  was before.
\<close>

theorem reverse_changes_only_below_threshold:
  "reverse (update c ks) \<noteq> reverse c \<Longrightarrow>
     (K_UP ks \<or> K_DOWN ks) \<and>
     vlength (velocity (body (throttle (forward_direction c) c ks))) < 5"
  using reverse_throttle_cases [of "forward_direction c" c ks]
  by (auto simp add: reverse_update)

theorem reverse_changes_only_below_threshold_witness:
  "reverse (update (car_at (- 7, 0) (- 1)) up_key) \<noteq> reverse (car_at (- 7, 0) (- 1)) \<and>
   (K_UP up_key \<or> K_DOWN up_key) \<and>
   vlength (velocity (body (throttle (forward_direction (car_at (- 7, 0) (- 1)))
     (car_at (- 7, 0) (- 1)) up_key))) < 5"
  using reverse_changes_only_below_threshold [of "car_at (- 7, 0) (- 1)" up_key]
  by (simp add: eval_car)

text \<open>
  Claim C2 as stated fails: a car reversing at speed 7 (velocity \<open>(- 7, 0)\<close>, facing east,
  flag \<open>- 1\<close>) that receives the up key is braked to speed 2 by the impulse, and the flag
  becomes \<open>1\<close>, although the speed before the update was not below 5.
\<close>

theorem reverse_flips_from_speed_seven:
  "5 \<le> vlength (velocity (body (car_at (- 7, 0) (- 1)))) \<and>
   reverse (car_at (- 7, 0) (- 1)) = - 1 \<and>
   reverse (update (car_at (- 7, 0) (- 1)) up_key) = 1"
  by (simp add: eval_car)

text \<open>
  Claim C3: after \<^verbatim>\<open>Car.update\<close>, for any keys and any prior state whose reverse flag
  is \<open>1\<close> or \<open>- 1\<close>, the velocity is the forward direction times the reverse flag times
  \<open>min speed MAX_SPEED\<close>, where \<open>speed\<close> is the speed the throttle stage has left; the
  forward direction is the same before and after the update; so the velocity has no
  component across the forward direction, and its magnitude is at most \<open>MAX_SPEED\<close>.
\<close>

theorem update_velocity_along_forward_direction:
  assumes "reverse c = 1 \<or> reverse c = - 1"
  shows "velocity (body (update c ks)) =
     vscale (min (vlength (velocity (body (throttle (forward_direction c) c ks)))) MAX_SPEED)
       (vscale (of_int (reverse (update c ks))) (forward_direction c))
   \<and> forward_direction (update c ks) = forward_direction c
   \<and> cross (velocity (body (update c ks))) (forward_direction c) = 0
   \<and> vlength (velocity (body (update c ks))) \<le> MAX_SPEED"
proof -
  let ?fd = "forward_direction c"
  let ?s = "vlength (velocity (body (throttle ?fd c ks)))"
  have v: "velocity (body (update c ks)) =
      vscale (min ?s MAX_SPEED) (vscale (of_int (reverse (update c ks))) ?fd)"
    by (rule velocity_update)
  have r: "\<bar>real_of_int (reverse (update c ks))\<bar> = 1"
    using reverse_throttle_pm [OF assms, of ?fd ks] by (auto simp add: reverse_update)
  have m: "0 \<le> min ?s MAX_SPEED"
    using vlength_nonneg [of "velocity (body (throttle ?fd c ks))"]
    by (simp add: MAX_SPEED_def)
  have "vlength (velocity (body (update c ks))) = min ?s MAX_SPEED"
    using m r by (simp add: v vlength_vscale vlength_forward_direction)
  then have "vlength (velocity (body (update c ks))) \<le> MAX_SPEED"
    by simp
  moreover have "cross (velocity (body (update c ks))) ?fd = 0"
    by (simp only: v cross_vscale_self)
  ultimately show ?thesis
    using v forward_direction_update [of c ks] by blast
qed

theorem update_velocity_along_forward_direction_witness:
  "(reverse (car_at (- 7, 0) (- 1)) = 1 \<or> reverse (car_at (- 7, 0) (- 1)) = - 1) \<and>
   velocity (body (update (car_at (- 7, 0) (- 1)) up_key)) = (2, 0) \<and>
   cross (velocity (body (update (car_at (- 7, 0) (- 1)) up_key)))
     (forward_direction (car_at (- 7, 0) (- 1))) = 0 \<and>
   vlength (velocity (body (update (car_at (- 7, 0) (- 1)) up_key))) \<le> MAX_SPEED"
  using update_velocity_along_forward_direction [of "car_at (- 7, 0) (- 1)" up_key]
  by (simp add: eval_car)

text \<open>
  Claim C4, as amended: for \<^verbatim>\<open>Car.update\<close> with no throttle key and no turn key, on a
  car whose reverse flag is \<open>1\<close> or \<open>- 1\<close> and whose speed is at least
  \<open>FREE_DECELERATION\<close>, the speed after the update is
  \<open>min (priorSpeed - FREE_DECELERATION) MAX_SPEED\<close>, directed along the forward direction
  times the reverse flag, and the flag is unchanged.
\<close>

theorem idle_update_speed:
  assumes idle: "\<not> K_UP ks" "\<not> K_DOWN ks" "\<not> K_SPACE ks"
    and noturn: "\<not> K_LEFT ks" "\<not> K_RIGHT ks"
    and rev: "reverse c = 1 \<or> reverse c = - 1"
    and fast: "FREE_DECELERATION \<le> vlength (velocity (body c))"
  shows "vlength (velocity (body (update c ks))) =
           min (vlength (velocity (body c)) - FREE_DECELERATION) MAX_SPEED
       \<and> velocity (body (update c ks)) =
           vscale (min (vlength (velocity (body c)) - FREE_DECELERATION) MAX_SPEED)
             (vscale (of_int (reverse c)) (forward_direction c))
       \<and> reverse (update c ks) = reverse c"
proof -
  let ?fd = "forward_direction c"
  let ?d = "vlength (velocity (body c)) - FREE_DECELERATION"
  have r: "\<bar>real_of_int (reverse c)\<bar> = 1"
    using rev by auto
  have d: "0 \<le> ?d"
    using fast by simp
  have s: "vlength (velocity (body (throttle ?fd c ks))) = ?d"
    using r d by (simp add: velocity_throttle_idle [OF idle] vlength_vscale
        vlength_forward_direction)
  have rr: "reverse (update c ks) = reverse c"
    by (simp add: reverse_update reverse_throttle_idle [OF idle])
  have v: "velocity (body (update c ks)) =
      vscale (min ?d MAX_SPEED) (vscale (of_int (reverse c)) ?fd)"
    by (simp add: velocity_update s rr)
  have "0 \<le> min ?d MAX_SPEED"
    using d by (simp add: MAX_SPEED_def)
  then have "vlength (velocity (body (update c ks))) = min ?d MAX_SPEED"
    using r by (simp add: v vlength_vscale vlength_forward_direction)
  then show ?thesis
    using v rr by blast
qed

theorem idle_update_speed_witness:
  "\<not> K_UP no_keys \<and> \<not> K_DOWN no_keys \<and> \<not> K_SPACE no_keys \<and>
   \<not> K_LEFT no_keys \<and> \<not> K_RIGHT no_keys \<and>
   (reverse (car_at (10, 0) 1) = 1 \<or> reverse (car_at (10, 0) 1) = - 1) \<and>
   FREE_DECELERATION \<le> vlength (velocity (body (car_at (10, 0) 1))) \<and>
   vlength (velocity (body (update (car_at (10, 0) 1) no_keys))) = 9.5 \<and>
   velocity (body (update (car_at (10, 0) 1) no_keys)) = (9.5, 0)"
  using idle_update_speed [of no_keys "car_at (10, 0) 1"]
  by (simp add: eval_car)

text \<open>
  Claim C4 as stated fails at the speed ceiling: an idle car moving at speed 300 leaves
  the update at speed \<open>MAX_SPEED = 200\<close>, not at \<open>max 0 (300 - 0.5) = 299.5\<close>.
\<close>

theorem idle_update_above_max_speed:
  "vlength (velocity (body (car_at (300, 0) 1))) = 300 \<and>
   vlength (velocity (body (update (car_at (300, 0) 1) no_keys))) = 200 \<and>
   max 0 (vlength (velocity (body (car_at (300, 0) 1))) - FREE_DECELERATION) = 299.5"
  by (simp add: eval_car)

text \<open>
  Below \<open>FREE_DECELERATION\<close> the difference is negative and nothing clamps it: an idle car
  at rest leaves the update moving forward at speed 0.5.
\<close>

lemma idle_update_at_rest:
  "velocity (body (update (car_at (0, 0) 1) no_keys)) = (0.5, 0)"
  by (simp add: eval_car)

lemma drive_pm:
  "reverse c = 1 \<or> reverse c = - 1 \<Longrightarrow>
   reverse (drive c steps) = 1 \<or> reverse (drive c steps) = - 1"
proof (induction steps arbitrary: c)
  case Nil
  then show ?case by simp
next
  case (Cons st steps)
  obtain ks f where st: "st = (ks, f)" by (cases st)
  have "reverse (update c ks) = 1 \<or> reverse (update c ks) = - 1"
    using reverse_throttle_pm [OF Cons.prems] by (simp add: reverse_update)
  then have "reverse ((update c ks)\<lparr>body := moved f (body (update c ks))\<rparr>) = 1 \<or>
             reverse ((update c ks)\<lparr>body := moved f (body (update c ks))\<rparr>) = - 1"
    by simp
  from Cons.IH [OF this] show ?case
    by (simp add: st)
qed

text \<open>
  Claim C10: the reverse flag of a car is \<open>1\<close> at construction, and \<open>1\<close> or \<open>- 1\<close> after
  any sequence of \<^verbatim>\<open>update\<close> calls with any keys, whatever the physics step does to the
  body between them.
\<close>

theorem reverse_is_plus_or_minus_one:
  "reverse (fst (Car x y sp ang i)) = 1 \<and>
   (reverse (drive (fst (Car x y sp ang i)) steps) = 1 \<or>
    reverse (drive (fst (Car x y sp ang i)) steps) = - 1)"
proof -
  have "reverse (fst (Car x y sp ang i)) = 1"
    by (simp add: Car_def Let_def)
  then show ?thesis
    using drive_pm [of "fst (Car x y sp ang i)" steps] by simp
qed

section \<open>Reset\<close>

lemma addObjects_fields:
  "leftscore (addObjects g) = leftscore g"
  "rightscore (addObjects g) = rightscore g"
  "ticks (addObjects g) = ticks g"
  "walls (addObjects g) = walls g"
  "exit (addObjects g) = exit g"
  "created (addObjects g) = created g + 3"
  by (simp_all add: addObjects_def Let_def split_def)

lemma addObjects_poses:
  "poses (addObjects g) =
     (BALL_POS,
      [(((FIELD_WIDTH + GOAL_DEPTH) / 3, FIELD_HEIGHT / 2), radians 0),
       ((2 * (FIELD_WIDTH + GOAL_DEPTH) / 3, FIELD_HEIGHT / 2 + 50), radians 180)])"
  by (simp add: poses_def addObjects_def Let_def split_def Ball_def Car_def Body_def
      apply_impulse_at_local_point_def)

text \<open>
  \<^verbatim>\<open>reset()\<close> creates three bodies, so a call shows in \<open>created\<close>; it leaves the scores and
  the flags alone.
\<close>

lemma reset_fields:
  "leftscore (reset g) = leftscore g"
  "rightscore (reset g) = rightscore g"
  "ticks (reset g) = ticks g"
  "walls (reset g) = walls g"
  "exit (reset g) = exit g"
  "created (reset g) = created g + 3"
  by (simp_all add: reset_def Let_def addObjects_fields)

lemma reset_poses:
  "poses (reset g) =
     (BALL_POS,
      [(((FIELD_WIDTH + GOAL_DEPTH) / 3, FIELD_HEIGHT / 2), radians 0),
       ((2 * (FIELD_WIDTH + GOAL_DEPTH) / 3, FIELD_HEIGHT / 2 + 50), radians 180)])"
  by (simp add: reset_def Let_def addObjects_poses)

text \<open>
  Claim C9: for every game state, the poses after two calls of \<^verbatim>\<open>reset()\<close> in a row are
  the poses after one, namely the spawn constants: the ball at \<open>BALL_POS\<close>
  (226.06, 152.4), the first car at a third of the width facing 0 degrees, the second at
  two thirds of the width, 50 further in y, facing 180 degrees.
\<close>

theorem reset_poses_idempotent:
  "poses (reset (reset g)) = poses (reset g) \<and>
   poses (reset g) =
     (BALL_POS,
      [(((FIELD_WIDTH + GOAL_DEPTH) / 3, FIELD_HEIGHT / 2), radians 0),
       ((2 * (FIELD_WIDTH + GOAL_DEPTH) / 3, FIELD_HEIGHT / 2 + 50), radians 180)]) \<and>
   BALL_POS = (226.06, 152.4) \<and> radians 0 = 0 \<and> radians 180 = pi"
  by (simp add: reset_poses radians_def BALL_POS_def FIELD_WIDTH_def GOAL_DEPTH_def
      FIELD_HEIGHT_def)

section \<open>Goal detection\<close>

text \<open>
  Claim C5: with the left goal line not right of the right one, \<^verbatim>\<open>checkGoal\<close> on a ball
  left of the left goal line calls \<^verbatim>\<open>reset()\<close> whatever the ball's y, after adding 1 to
  \<open>rightscore\<close> exactly when the y lies strictly between \<open>topgoal\<close> and \<open>botgoal\<close>; on a
  ball right of the right goal line it does the same with \<open>leftscore\<close>; on a ball between
  the lines it changes nothing.
\<close>

theorem checkGoal_cases:
  assumes "leftgoal \<le> rightgoal"
  shows
    "(fst (getPos bl) < leftgoal \<longrightarrow>
        checkGoal g bl leftgoal rightgoal topgoal botgoal =
          reset (g\<lparr>rightscore := rightscore g +
            (if topgoal < snd (getPos bl) \<and> snd (getPos bl) < botgoal then 1 else 0)\<rparr>)
      \<and> rightscore (checkGoal g bl leftgoal rightgoal topgoal botgoal) =
          rightscore g + (if topgoal < snd (getPos bl) \<and> snd (getPos bl) < botgoal then 1 else 0)
      \<and> leftscore (checkGoal g bl leftgoal rightgoal topgoal botgoal) = leftscore g)
   \<and> (rightgoal < fst (getPos bl) \<longrightarrow>
        checkGoal g bl leftgoal rightgoal topgoal botgoal =
          reset (g\<lparr>leftscore := leftscore g +
            (if topgoal < snd (getPos bl) \<and> snd (getPos bl) < botgoal then 1 else 0)\<rparr>)
      \<and> leftscore (checkGoal g bl leftgoal rightgoal topgoal botgoal) =
          leftscore g + (if topgoal < snd (getPos bl) \<and> snd (getPos bl) < botgoal then 1 else 0)
      \<and> rightscore (checkGoal g bl leftgoal rightgoal topgoal botgoal) = rightscore g)
   \<and> (leftgoal \<le> fst (getPos bl) \<and> fst (getPos bl) \<le> rightgoal \<longrightarrow>
        checkGoal g bl leftgoal rightgoal topgoal botgoal = g)"
  using assms
  by (simp add: checkGoal_def reset_fields)

text \<open>
  With the goal lines of \<^verbatim>\<open>run()\<close>: a ball just left of the left line scores for the right
  side inside the goal mouth and not outside it, with three new bodies either way; a ball
  right of the right line scores for the left side; a ball on the field changes nothing.
\<close>

theorem checkGoal_cases_witness:
  "GOAL_DEPTH \<le> FIELD_WIDTH
   \<and> rightscore (checkGoal (game_at True (24.4, 152.4)) (ball (game_at True (24.4, 152.4)))
        GOAL_DEPTH FIELD_WIDTH SIDE_WALL (SIDE_WALL + GOAL_HEIGHT)) = 1
   \<and> created (checkGoal (game_at True (24.4, 152.4)) (ball (game_at True (24.4, 152.4)))
        GOAL_DEPTH FIELD_WIDTH SIDE_WALL (SIDE_WALL + GOAL_HEIGHT)) = 6
   \<and> rightscore (checkGoal (game_at True (24.4, 50)) (ball (game_at True (24.4, 50)))
        GOAL_DEPTH FIELD_WIDTH SIDE_WALL (SIDE_WALL + GOAL_HEIGHT)) = 0
   \<and> created (checkGoal (game_at True (24.4, 50)) (ball (game_at True (24.4, 50)))
        GOAL_DEPTH FIELD_WIDTH SIDE_WALL (SIDE_WALL + GOAL_HEIGHT)) = 6
   \<and> leftscore (checkGoal (game_at True (430, 152.4)) (ball (game_at True (430, 152.4)))
        GOAL_DEPTH FIELD_WIDTH SIDE_WALL (SIDE_WALL + GOAL_HEIGHT)) = 1
   \<and> checkGoal (game_at True (200, 152.4)) (ball (game_at True (200, 152.4)))
        GOAL_DEPTH FIELD_WIDTH SIDE_WALL (SIDE_WALL + GOAL_HEIGHT) = game_at True (200, 152.4)"
proof -
  have le: "GOAL_DEPTH \<le> FIELD_WIDTH"
    by (simp add: GOAL_DEPTH_def FIELD_WIDTH_def)
  note inst = checkGoal_cases [OF le,
      where topgoal = SIDE_WALL and botgoal = "SIDE_WALL + GOAL_HEIGHT"]
  show ?thesis
    using le
      inst [of "ball (game_at True (24.4, 152.4))" "game_at True (24.4, 152.4)"]
      inst [of "ball (game_at True (24.4, 50))" "game_at True (24.4, 50)"]
      inst [of "ball (game_at True (430, 152.4))" "game_at True (430, 152.4)"]
      inst [of "ball (game_at True (200, 152.4))" "game_at True (200, 152.4)"]
    by (simp add: game_at_def getPos_def Body_def GOAL_DEPTH_def FIELD_WIDTH_def SIDE_WALL_def
        GOAL_HEIGHT_def FIELD_HEIGHT_def reset_fields)
qed

lemma checkGoal_fields:
  "walls (checkGoal g bl l r t b) = walls g"
  "exit (checkGoal g bl l r t b) = exit g"
  by (simp_all add: checkGoal_def reset_fields)

lemma checkGoal_leftscore:
  "leftscore (checkGoal g bl l r t b) = leftscore g \<or>
   leftscore (checkGoal g bl l r t b) = leftscore g + 1"
  by (simp add: checkGoal_def reset_fields)

lemma checkGoal_rightscore:
  "rightscore (checkGoal g bl l r t b) = rightscore g \<or>
   rightscore (checkGoal g bl l r t b) = rightscore g + 1"
  by (simp add: checkGoal_def reset_fields)

section \<open>The loop\<close>

lemma logic_walls: "walls (logic g ks) = walls g"
  and logic_exit: "exit (logic g ks) = exit g"
  by (simp_all add: logic_def Let_def checkGoal_fields)

lemma logic_leftscore:
  "leftscore (logic g ks) = leftscore g \<or> leftscore (logic g ks) = leftscore g + 1"
proof (cases "walls g")
  case True
  let ?g2 = "g\<lparr>cars := map (\<lambda>c. update c ks) (cars g), ball := decelerate (ball g)\<rparr>"
  have "logic g ks =
      checkGoal ?g2 (ball ?g2) GOAL_DEPTH FIELD_WIDTH SIDE_WALL (SIDE_WALL + GOAL_HEIGHT)"
    using True by (simp add: logic_def Let_def)
  then show ?thesis
    using checkGoal_leftscore [of ?g2 "ball ?g2"] by simp
next
  case False
  then show ?thesis by (simp add: logic_def Let_def)
qed

lemma logic_rightscore:
  "rightscore (logic g ks) = rightscore g \<or> rightscore (logic g ks) = rightscore g + 1"
proof (cases "walls g")
  case True
  let ?g2 = "g\<lparr>cars := map (\<lambda>c. update c ks) (cars g), ball := decelerate (ball g)\<rparr>"
  have "logic g ks =
      checkGoal ?g2 (ball ?g2) GOAL_DEPTH FIELD_WIDTH SIDE_WALL (SIDE_WALL + GOAL_HEIGHT)"
    using True by (simp add: logic_def Let_def)
  then show ?thesis
    using checkGoal_rightscore [of ?g2 "ball ?g2"] by simp
next
  case False
  then show ?thesis by (simp add: logic_def Let_def)
qed

text \<open>Without walls the logic of a pass is the car updates and the ball deceleration.\<close>

lemma logic_no_walls:
  "\<not> walls g \<Longrightarrow>
   logic g ks = g\<lparr>ball := decelerate (ball g), cars := map (\<lambda>c. update c ks) (cars g)\<rparr>"
  by (simp add: logic_def Let_def)

lemma ident_moved: "ident (moved f b) = ident b"
  by (simp add: moved_def)

lemma space_step_fields:
  "leftscore (space_step f g) = leftscore g"
  "rightscore (space_step f g) = rightscore g"
  "walls (space_step f g) = walls g"
  "exit (space_step f g) = exit g"
  "created (space_step f g) = created g"
  "gameSpace (space_step f g) = gameSpace g"
  by (simp_all add: space_step_def)

lemma tick_walls: "walls (tick g inp) = walls g"
  by (simp add: tick_def Let_def space_step_fields logic_walls)

lemma tick_leftscore:
  "leftscore (tick g inp) = leftscore g \<or> leftscore (tick g inp) = leftscore g + 1"
  using logic_leftscore [of "g\<lparr>exit := True\<rparr>" "pressed inp"] logic_leftscore [of g "pressed inp"]
  by (simp add: tick_def Let_def space_step_fields)

lemma tick_rightscore:
  "rightscore (tick g inp) = rightscore g \<or> rightscore (tick g inp) = rightscore g + 1"
  using logic_rightscore [of "g\<lparr>exit := True\<rparr>" "pressed inp"]
    logic_rightscore [of g "pressed inp"]
  by (simp add: tick_def Let_def space_step_fields)

lemma tick_no_walls:
  assumes "\<not> walls g"
  shows "leftscore (tick g inp) = leftscore g"
    and "rightscore (tick g inp) = rightscore g"
    and "created (tick g inp) = created g"
    and "gameSpace (tick g inp) = gameSpace g"
    and "ident (ball_body (ball (tick g inp))) = ident (ball_body (ball g))"
    and "map (\<lambda>c. ident (body c)) (cars (tick g inp)) = map (\<lambda>c. ident (body c)) (cars g)"
  using assms
  by (simp_all add: tick_def Let_def logic_no_walls space_step_def ident_moved
      ident_decelerate ident_update comp_def)

lemma run_loop_scores:
  "leftscore g \<le> leftscore (run_loop g inps) \<and> rightscore g \<le> rightscore (run_loop g inps)"
proof (induction inps arbitrary: g)
  case Nil
  then show ?case by simp
next
  case (Cons inp inps)
  have "leftscore g \<le> leftscore (tick g inp)" "rightscore g \<le> rightscore (tick g inp)"
    using tick_leftscore [of g inp] tick_rightscore [of g inp] by auto
  with Cons.IH [of "tick g inp"] show ?case
    by auto
qed

text \<open>
  Claim C6: when \<open>walls\<close> is false, over any number of passes of the loop, with any
  inputs and from any state (the ball anywhere, also beyond a goal line), the scores stay
  as they are and \<^verbatim>\<open>reset()\<close> is never called: no body is created, the space holds the
  same bodies, and the ball and the cars are the same objects.
\<close>

theorem no_walls_no_goal_detection:
  assumes "\<not> walls g"
  shows "leftscore (run_loop g inps) = leftscore g
       \<and> rightscore (run_loop g inps) = rightscore g
       \<and> created (run_loop g inps) = created g
       \<and> gameSpace (run_loop g inps) = gameSpace g
       \<and> ident (ball_body (ball (run_loop g inps))) = ident (ball_body (ball g))
       \<and> map (\<lambda>c. ident (body c)) (cars (run_loop g inps)) = map (\<lambda>c. ident (body c)) (cars g)"
  using assms
proof (induction inps arbitrary: g)
  case Nil
  then show ?case by simp
next
  case (Cons inp inps)
  have "\<not> walls (tick g inp)"
    using Cons.prems by (simp add: tick_walls)
  from Cons.IH [OF this] show ?case
    by (simp add: tick_no_walls [OF Cons.prems])
qed

theorem no_walls_no_goal_detection_witness:
  "\<not> walls (game_at False (500, 150)) \<and>
   fst (getPos (ball (game_at False (500, 150)))) > FIELD_WIDTH \<and>
   leftscore (run_loop (game_at False (500, 150)) [still, still]) = 0 \<and>
   rightscore (run_loop (game_at False (500, 150)) [still, still]) = 0 \<and>
   created (run_loop (game_at False (500, 150)) [still, still]) = 3 \<and>
   gameSpace (run_loop (game_at False (500, 150)) [still, still]) = [0, 1, 2]"
  using no_walls_no_goal_detection [of "game_at False (500, 150)" "[still, still]"]
  by (simp add: game_at_def getPos_def FIELD_WIDTH_def)

text \<open>
  Claim C7: over any number of passes of the loop, with any inputs, \<open>leftscore\<close> and
  \<open>rightscore\<close> never decrease; a single pass, and a single \<^verbatim>\<open>checkGoal\<close>, leaves a
  score as it is or adds 1 to it; and \<^verbatim>\<open>reset()\<close> leaves both scores exactly as they
  are.
\<close>

theorem scores_non_decreasing:
  "leftscore g \<le> leftscore (run_loop g inps)
   \<and> rightscore g \<le> rightscore (run_loop g inps)
   \<and> (leftscore (tick g inp) = leftscore g \<or> leftscore (tick g inp) = leftscore g + 1)
   \<and> (rightscore (tick g inp) = rightscore g \<or> rightscore (tick g inp) = rightscore g + 1)
   \<and> (leftscore (checkGoal g bl l r t b) = leftscore g \<or>
      leftscore (checkGoal g bl l r t b) = leftscore g + 1)
   \<and> (rightscore (checkGoal g bl l r t b) = rightscore g \<or>
      rightscore (checkGoal g bl l r t b) = rightscore g + 1)
   \<and> leftscore (reset g) = leftscore g
   \<and> rightscore (reset g) = rightscore g"
  using run_loop_scores [of g inps] tick_leftscore [of g inp] tick_rightscore [of g inp]
    checkGoal_leftscore [of g bl l r t b] checkGoal_rightscore [of g bl l r t b]
  by (simp add: reset_fields)

section \<open>The space holds the current objects\<close>

lemma registered_addObjects:
  "list_all (\<lambda>i. i < created g) (gameSpace g) \<Longrightarrow> registered (addObjects g)"
  by (auto simp add: registered_def addObjects_def Let_def split_def Ball_def Car_def Body_def
      space_add_def apply_impulse_at_local_point_def list_all_iff)

lemma space_remove_below:
  "list_all (\<lambda>i. i < n) sp \<Longrightarrow> list_all (\<lambda>i. i < n) (space_remove sp b)"
  by (simp add: space_remove_def list_all_iff)

lemma fold_space_remove_below:
  "list_all (\<lambda>i. i < n) sp \<Longrightarrow>
   list_all (\<lambda>i. i < n) (fold (\<lambda>c sp. space_remove sp (body c)) cs sp)"
  by (induction cs arbitrary: sp) (simp_all add: space_remove_below)

lemma registered_reset: "registered g \<Longrightarrow> registered (reset g)"
  unfolding reset_def Let_def
  by (rule registered_addObjects)
     (simp add: registered_def space_remove_below fold_space_remove_below)

lemma registered_logic: "registered g \<Longrightarrow> registered (logic g ks)"
proof -
  assume r: "registered g"
  let ?g2 = "g\<lparr>cars := map (\<lambda>c. update c ks) (cars g), ball := decelerate (ball g)\<rparr>"
  have r2: "registered ?g2"
    using r by (simp add: registered_def ident_decelerate ident_update list_all_iff)
  have "registered (checkGoal ?g2 bl l rg t b)" for bl l rg t b
  proof -
    have "registered (?g2\<lparr>rightscore := rightscore ?g2 + 1\<rparr>)"
      and "registered (?g2\<lparr>leftscore := leftscore ?g2 + 1\<rparr>)"
      using r2 by (simp_all add: registered_def)
    then show ?thesis
      using r2 by (simp add: checkGoal_def registered_reset)
  qed
  then show ?thesis
    using r2 by (simp add: logic_def Let_def)
qed

lemma registered_space_step: "registered g \<Longrightarrow> registered (space_step f g)"
  by (simp add: registered_def space_step_def ident_moved list_all_iff)

lemma registered_tick: "registered g \<Longrightarrow> registered (tick g inp)"
proof -
  assume r: "registered g"
  then have "registered (g\<lparr>exit := True\<rparr>)"
    by (simp add: registered_def)
  with r show ?thesis
    by (simp add: tick_def Let_def registered_space_step registered_logic)
qed

lemma registered_run_loop: "registered g \<Longrightarrow> registered (run_loop g inps)"
  by (induction inps arbitrary: g) (simp_all add: registered_tick)

text \<open>
  \<^verbatim>\<open>run()\<close> calls \<^verbatim>\<open>addObjects()\<close> on the empty space of the constructor and then enters
  the loop.
\<close>

lemma registered_from_start:
  "gameSpace g = [] \<Longrightarrow> registered (run_loop (addObjects g) inps)"
  by (simp add: registered_run_loop registered_addObjects)

section \<open>The reverse flags of the cars of a game\<close>

lemma flags_ok_addObjects: "flags_ok (addObjects g)"
  by (simp add: flags_ok_def addObjects_def Let_def split_def Car_def)

lemma flags_ok_reset: "flags_ok (reset g)"
  by (simp add: reset_def Let_def flags_ok_addObjects)

lemma flags_ok_logic: "flags_ok g \<Longrightarrow> flags_ok (logic g ks)"
proof -
  assume r: "flags_ok g"
  let ?g2 = "g\<lparr>cars := map (\<lambda>c. update c ks) (cars g), ball := decelerate (ball g)\<rparr>"
  have r2: "flags_ok ?g2"
    using r by (simp add: flags_ok_def list_all_iff reverse_update_pm)
  have "flags_ok (checkGoal ?g2 bl l rg t b)" for bl l rg t b
    using r2 by (simp add: checkGoal_def flags_ok_reset)
  then show ?thesis
    using r2 by (simp add: logic_def Let_def)
qed

lemma flags_ok_tick: "flags_ok g \<Longrightarrow> flags_ok (tick g inp)"
proof -
  assume r: "flags_ok g"
  then have e: "flags_ok (g\<lparr>exit := True\<rparr>)"
    by (simp add: flags_ok_def)
  have "flags_ok (space_step f h)" if "flags_ok h" for f h
    using that by (simp add: flags_ok_def space_step_def list_all_iff)
  with r e show ?thesis
    by (simp add: tick_def Let_def flags_ok_logic)
qed

lemma flags_ok_run_loop: "flags_ok g \<Longrightarrow> flags_ok (run_loop g inps)"
  by (induction inps arbitrary: g) (simp_all add: flags_ok_tick)

lemma flags_ok_from_start: "flags_ok (run_loop (addObjects g) inps)"
  by (simp add: flags_ok_run_loop flags_ok_addObjects)

end
